theory Spec2Isabelle
  imports Main "HOL-Library.Word"
begin

section \<open>Data model: conditions and filters\<close>

text \<open>
  The repository holds two copies of one small package: \<^verbatim>\<open>src/crud.go\<close> (everything in
  one file, the insert operation named \<^verbatim>\<open>Add\<close>) and \<^verbatim>\<open>src/crud/crud.go\<close> with
  \<^verbatim>\<open>src/crud/interface.go\<close> (the insert operation named \<^verbatim>\<open>Create\<close>, and four
  ready-made filters). The types \<^verbatim>\<open>KV\<close> and \<^verbatim>\<open>Filter\<close> and the function
  \<^verbatim>\<open>applyFilter\<close> are the same text in both copies.

  Go's \<^verbatim>\<open>int64\<close> is a 64-bit two's complement word. Go's \<^verbatim>\<open>int\<close> has the width of
  the platform; it is taken as 64 bits here. The code only compares such values with
  zero (a signed comparison, read through \<open>sint\<close>) and hands them on unchanged.
\<close>

type_synonym go_int = "64 word"
type_synonym int64 = "64 word"

text \<open>\<^verbatim>\<open>type KV[V any] struct { Key string; Value V }\<close>\<close>

record 'v KV =
  Key :: string
  Value :: 'v

text \<open>\<^verbatim>\<open>type Filter struct\<close>, the fields in the order of the source.\<close>

record Filter =
  OrInt64 :: "int64 KV list"
  OrInt :: "go_int KV list"
  OrString :: "string KV list"
  AndInt :: "go_int KV list"
  AndInt64 :: "int64 KV list"
  AndString :: "string KV list"
  WhereInt :: "go_int KV list"
  WhereInt64 :: "int64 KV list"
  WhereString :: "string KV list"
  Limit :: go_int
  Offset :: go_int

section \<open>The query-building handle\<close>

text \<open>
  \<^verbatim>\<open>*bun.SelectQuery\<close> belongs to the library \<^verbatim>\<open>github.com/uptrace/bun\<close>, not to this
  repository. The code uses six of its builder methods (\<^verbatim>\<open>Model\<close>, \<^verbatim>\<open>Order\<close>,
  \<^verbatim>\<open>Limit\<close>, \<^verbatim>\<open>Offset\<close>, \<^verbatim>\<open>Where\<close>, \<^verbatim>\<open>WhereOr\<close>), each returning the handle for
  chaining. The handle is modelled by what the code can do to it: the sequence of
  builder calls it has received, oldest first. Whatever else a handle holds (its
  database, its table) is the extension of the record and is left alone by every
  builder call.

  The argument of a predicate is passed as \<^verbatim>\<open>any\<close>; it keeps its dynamic type, so
  an \<^verbatim>\<open>int\<close> and an \<^verbatim>\<open>int64\<close> of the same value are different arguments.
\<close>

datatype arg = ArgInt go_int | ArgInt64 int64 | ArgString string

text \<open>
  What \<^verbatim>\<open>Model\<close> is given in a select: \<^verbatim>\<open>&result\<close>, a pointer to a zero value of the
  record type, or \<^verbatim>\<open>&results\<close>, a pointer to a nil slice of it.
\<close>

datatype dest = PtrZero | PtrNilSlice

datatype call =
    ModelCall dest
  | is_Order: OrderCall string
  | is_Limit: LimitCall go_int
  | is_Offset: OffsetCall go_int
  | is_Where: WhereCall string arg
  | is_WhereOr: WhereOrCall string arg

record SelectQuery =
  calls :: "call list"

definition NewSelect :: SelectQuery where
  "NewSelect = \<lparr>calls = []\<rparr>"

definition SelectQuery_Model :: "'a SelectQuery_scheme \<Rightarrow> dest \<Rightarrow> 'a SelectQuery_scheme" where
  "SelectQuery_Model q d = q\<lparr>calls := calls q @ [ModelCall d]\<rparr>"

definition SelectQuery_Order :: "'a SelectQuery_scheme \<Rightarrow> string \<Rightarrow> 'a SelectQuery_scheme" where
  "SelectQuery_Order q ord = q\<lparr>calls := calls q @ [OrderCall ord]\<rparr>"

definition SelectQuery_Limit :: "'a SelectQuery_scheme \<Rightarrow> go_int \<Rightarrow> 'a SelectQuery_scheme" where
  "SelectQuery_Limit q n = q\<lparr>calls := calls q @ [LimitCall n]\<rparr>"

definition SelectQuery_Offset :: "'a SelectQuery_scheme \<Rightarrow> go_int \<Rightarrow> 'a SelectQuery_scheme" where
  "SelectQuery_Offset q n = q\<lparr>calls := calls q @ [OffsetCall n]\<rparr>"

definition SelectQuery_Where :: "'a SelectQuery_scheme \<Rightarrow> string \<Rightarrow> arg \<Rightarrow> 'a SelectQuery_scheme" where
  "SelectQuery_Where q cond v = q\<lparr>calls := calls q @ [WhereCall cond v]\<rparr>"

definition SelectQuery_WhereOr :: "'a SelectQuery_scheme \<Rightarrow> string \<Rightarrow> arg \<Rightarrow> 'a SelectQuery_scheme" where
  "SelectQuery_WhereOr q cond v = q\<lparr>calls := calls q @ [WhereOrCall cond v]\<rparr>"

text \<open>\<^verbatim>\<open>fmt.Sprintf("%s = ?", key)\<close>: the key, then the five characters \<^verbatim>\<open> = ?\<close>.\<close>

definition Sprintf_eq :: "string \<Rightarrow> string" where
  "Sprintf_eq key = key @ '' = ?''"

section \<open>The filter compiler\<close>

text \<open>
  \<^verbatim>\<open>func applyFilter(query *bun.SelectQuery, filter Filter) *bun.SelectQuery\<close>: two
  guarded calls, then nine \<^verbatim>\<open>for _, kv := range ...\<close> loops over slices, each a left
  fold that reassigns \<^verbatim>\<open>query\<close>.
\<close>

definition applyFilter :: "'a SelectQuery_scheme \<Rightarrow> Filter \<Rightarrow> 'a SelectQuery_scheme" where
  "applyFilter query0 flt =
    (let query = (if 0 < sint (Limit flt) then SelectQuery_Limit query0 (Limit flt) else query0);
         query = (if 0 < sint (Offset flt) then SelectQuery_Offset query (Offset flt) else query);
         query = foldl (\<lambda>query kv. SelectQuery_Where query (Sprintf_eq (Key kv)) (ArgInt (Value kv)))
                   query (AndInt flt);
         query = foldl (\<lambda>query kv. SelectQuery_Where query (Sprintf_eq (Key kv)) (ArgInt64 (Value kv)))
                   query (AndInt64 flt);
         query = foldl (\<lambda>query kv. SelectQuery_Where query (Sprintf_eq (Key kv)) (ArgString (Value kv)))
                   query (AndString flt);
         query = foldl (\<lambda>query kv. SelectQuery_WhereOr query (Sprintf_eq (Key kv)) (ArgInt (Value kv)))
                   query (OrInt flt);
         query = foldl (\<lambda>query kv. SelectQuery_WhereOr query (Sprintf_eq (Key kv)) (ArgInt64 (Value kv)))
                   query (OrInt64 flt);
         query = foldl (\<lambda>query kv. SelectQuery_WhereOr query (Sprintf_eq (Key kv)) (ArgString (Value kv)))
                   query (OrString flt);
         query = foldl (\<lambda>query kv. SelectQuery_Where query (Sprintf_eq (Key kv)) (ArgInt (Value kv)))
                   query (WhereInt flt);
         query = foldl (\<lambda>query kv. SelectQuery_Where query (Sprintf_eq (Key kv)) (ArgInt64 (Value kv)))
                   query (WhereInt64 flt);
         query = foldl (\<lambda>query kv. SelectQuery_Where query (Sprintf_eq (Key kv)) (ArgString (Value kv)))
                   query (WhereString flt)
     in query)"

text \<open>
  The directives a compilation adds to a handle: what stands in the handle afterwards,
  behind what stood there before. (An observation for stating properties, not a function
  of the source.)
\<close>

definition appended :: "'a SelectQuery_scheme \<Rightarrow> Filter \<Rightarrow> call list" where
  "appended q flt = drop (length (calls q)) (calls (applyFilter q flt))"

text \<open>
  The predicates a condition stands for, written out: a conjunctive one is a
  \<^verbatim>\<open>Where\<close> call, a disjunctive one a \<^verbatim>\<open>WhereOr\<close> call, with the template
  \<^verbatim>\<open>key = ?\<close> and the value as its argument.
\<close>

abbreviation conj_int :: "go_int KV \<Rightarrow> call" where
  "conj_int kv \<equiv> WhereCall (Key kv @ '' = ?'') (ArgInt (Value kv))"

abbreviation conj_int64 :: "int64 KV \<Rightarrow> call" where
  "conj_int64 kv \<equiv> WhereCall (Key kv @ '' = ?'') (ArgInt64 (Value kv))"

abbreviation conj_string :: "string KV \<Rightarrow> call" where
  "conj_string kv \<equiv> WhereCall (Key kv @ '' = ?'') (ArgString (Value kv))"

abbreviation disj_int :: "go_int KV \<Rightarrow> call" where
  "disj_int kv \<equiv> WhereOrCall (Key kv @ '' = ?'') (ArgInt (Value kv))"

abbreviation disj_int64 :: "int64 KV \<Rightarrow> call" where
  "disj_int64 kv \<equiv> WhereOrCall (Key kv @ '' = ?'') (ArgInt64 (Value kv))"

abbreviation disj_string :: "string KV \<Rightarrow> call" where
  "disj_string kv \<equiv> WhereOrCall (Key kv @ '' = ?'') (ArgString (Value kv))"

section \<open>Ready-made filters (src/crud/crud.go)\<close>

text \<open>
  A composite literal \<^verbatim>\<open>Filter{...}\<close> leaves every field it does not name at its zero
  value: a nil slice, the integer 0.
\<close>

definition Filter_zero :: Filter where
  "Filter_zero = \<lparr>OrInt64 = [], OrInt = [], OrString = [],
                   AndInt = [], AndInt64 = [], AndString = [],
                   WhereInt = [], WhereInt64 = [], WhereString = [],
                   Limit = 0, Offset = 0\<rparr>"

definition WhereEmailFilter :: "string \<Rightarrow> Filter" where
  "WhereEmailFilter email = Filter_zero\<lparr>WhereString := [\<lparr>Key = ''email'', Value = email\<rparr>]\<rparr>"

definition WhereIdFilter :: "int64 \<Rightarrow> Filter" where
  "WhereIdFilter id' = Filter_zero\<lparr>WhereInt64 := [\<lparr>Key = ''id'', Value = id'\<rparr>]\<rparr>"

definition WhereSlugFilter :: "string \<Rightarrow> Filter" where
  "WhereSlugFilter slug = Filter_zero\<lparr>WhereString := [\<lparr>Key = ''slug'', Value = slug\<rparr>]\<rparr>"

definition WhereSlugOrId :: "string \<Rightarrow> int64 \<Rightarrow> Filter" where
  "WhereSlugOrId slug id' =
     Filter_zero\<lparr>WhereString := [\<lparr>Key = ''slug'', Value = slug\<rparr>],
                 WhereInt64 := [\<lparr>Key = ''id'', Value = id'\<rparr>]\<rparr>"

section \<open>Errors and the store\<close>

text \<open>
  A Go \<^verbatim>\<open>error\<close> is a value; \<^verbatim>\<open>nil\<close> is \<open>None\<close>. The store's own errors are
  \<^verbatim>\<open>sql.ErrNoRows\<close> (a scan that finds no row) and whatever else the driver reports,
  kept by its message. \<^verbatim>\<open>fmt.Errorf(prefix + "%w", err)\<close> is \<open>Errorf prefix err\<close>:
  its message is the prefix followed by the message of \<open>err\<close>, and it unwraps to
  \<open>err\<close>.
\<close>

datatype error = ErrNoRows | DriverError string | Errorf string error

fun Error :: "error \<Rightarrow> string" where
  "Error ErrNoRows = ''sql: no rows in result set''"
| "Error (DriverError msg) = msg"
| "Error (Errorf prefix err) = prefix @ Error err"

fun Unwrap :: "error \<Rightarrow> error option" where
  "Unwrap (Errorf prefix err) = Some err"
| "Unwrap err = None"

text \<open>
  \<^verbatim>\<open>*bun.DB\<close> is the library's too. What running a query does depends on the store, so
  it is a parameter: for each way the code runs a query, a function from the query and
  the store's state \<open>'s\<close> to the outcome and the state afterwards. The rows have
  type \<open>'t\<close>, the type parameter \<^verbatim>\<open>T\<close> of \<^verbatim>\<open>CRUD[T]\<close>.
  \<^item> \<^verbatim>\<open>db.NewInsert().Model(a).Exec(ctx)\<close> and \<^verbatim>\<open>db.NewUpdate().Model(a).Exec(ctx)\<close>: the
    query is given by the row \<open>a\<close>; the outcome is the error (the \<^verbatim>\<open>sql.Result\<close> is
    dropped by the code).
  \<^item> \<^verbatim>\<open>db.NewDelete()...Exec(ctx)\<close>: the query is its builder calls.
  \<^item> \<^verbatim>\<open>query.Scan(ctx)\<close> on a select whose model is \<^verbatim>\<open>&results\<close>, a slice: the rows
    left in the slice, and the error.
  \<^item> \<^verbatim>\<open>query.Scan(ctx)\<close> on a select whose model is \<^verbatim>\<open>&result\<close>: the value left in
    \<^verbatim>\<open>result\<close>, and the error.
  \<^item> \<^verbatim>\<open>query.Scan(ctx, &id)\<close>: the value left in \<^verbatim>\<open>id\<close> (declared
    \<^verbatim>\<open>var id int64\<close>), and the error.
\<close>

record ('t, 's) DB =
  InsertQuery_Exec :: "'t \<Rightarrow> 's \<Rightarrow> error option \<times> 's"
  UpdateQuery_Exec :: "'t \<Rightarrow> 's \<Rightarrow> error option \<times> 's"
  DeleteQuery_Exec :: "call list \<Rightarrow> 's \<Rightarrow> error option \<times> 's"
  SelectQuery_Scan_slice :: "call list \<Rightarrow> 's \<Rightarrow> ('t list \<times> error option) \<times> 's"
  SelectQuery_Scan_one :: "call list \<Rightarrow> 's \<Rightarrow> ('t \<times> error option) \<times> 's"
  SelectQuery_Scan_id :: "call list \<Rightarrow> 's \<Rightarrow> (int64 \<times> error option) \<times> 's"

section \<open>The CRUD operations\<close>

text \<open>
  Each takes the store's state and returns its Go results with the state afterwards.
  \<^verbatim>\<open>Add\<close> (src/crud.go) and \<^verbatim>\<open>Create\<close> (src/crud/crud.go) have the same body.
\<close>

definition Add :: "('t, 's) DB \<Rightarrow> 't \<Rightarrow> 's \<Rightarrow> error option \<times> 's" where
  "Add c a s =
     (case InsertQuery_Exec c a s of
        (Some err, s') \<Rightarrow> (Some (Errorf ''insert error: '' err), s')
      | (None, s') \<Rightarrow> (None, s'))"

definition Create :: "('t, 's) DB \<Rightarrow> 't \<Rightarrow> 's \<Rightarrow> error option \<times> 's" where
  "Create c a s =
     (case InsertQuery_Exec c a s of
        (Some err, s') \<Rightarrow> (Some (Errorf ''insert error: '' err), s')
      | (None, s') \<Rightarrow> (None, s'))"

definition Update :: "('t, 's) DB \<Rightarrow> 't \<Rightarrow> 's \<Rightarrow> error option \<times> 's" where
  "Update c a s =
     (case UpdateQuery_Exec c a s of
        (Some err, s') \<Rightarrow> (Some (Errorf ''update error: '' err), s')
      | (None, s') \<Rightarrow> (None, s'))"

text \<open>\<^verbatim>\<open>c.db.NewDelete().Model(&m).Where("id = ?", id)\<close>\<close>

definition Delete_query :: "int64 \<Rightarrow> call list" where
  "Delete_query id' = [ModelCall PtrZero, WhereCall ''id = ?'' (ArgInt64 id')]"

definition Delete :: "('t, 's) DB \<Rightarrow> int64 \<Rightarrow> 's \<Rightarrow> error option \<times> 's" where
  "Delete c id' s =
     (case DeleteQuery_Exec c (Delete_query id') s of
        (Some err, s') \<Rightarrow> (Some (Errorf ''delete error: '' err), s')
      | (None, s') \<Rightarrow> (None, s'))"

text \<open>
  The first two statements of \<^verbatim>\<open>List\<close>, \<^verbatim>\<open>Get\<close> and \<^verbatim>\<open>Exists\<close> build the query; the
  rest runs it. The query each one builds has a name of its own here, so that
  properties of the query can be stated.
\<close>

definition List_query :: "Filter \<Rightarrow> SelectQuery" where
  "List_query flt =
     (let query = SelectQuery_Order (SelectQuery_Model NewSelect PtrNilSlice) ''id DESC'';
          query = applyFilter query flt
      in query)"

definition List :: "('t, 's) DB \<Rightarrow> Filter \<Rightarrow> 's \<Rightarrow> ('t list \<times> error option) \<times> 's" where
  "List c flt s =
     (case SelectQuery_Scan_slice c (calls (List_query flt)) s of
        ((results, Some err), s') \<Rightarrow> (([], Some (Errorf ''list error: '' err)), s')
      | ((results, None), s') \<Rightarrow> ((results, None), s'))"

definition Get_query :: "Filter \<Rightarrow> SelectQuery" where
  "Get_query flt =
     (let query = SelectQuery_Model NewSelect PtrZero;
          query = applyFilter query flt
      in query)"

definition Get :: "('t, 's) DB \<Rightarrow> Filter \<Rightarrow> 's \<Rightarrow> ('t \<times> error option) \<times> 's" where
  "Get c flt s =
     (case SelectQuery_Scan_one c (calls (Get_query flt)) s of
        ((result, Some err), s') \<Rightarrow> ((result, Some (Errorf ''get error: '' err)), s')
      | ((result, None), s') \<Rightarrow> ((result, None), s'))"

definition Exists_query :: "Filter \<Rightarrow> SelectQuery" where
  "Exists_query flt = applyFilter (SelectQuery_Model NewSelect PtrZero) flt"

definition Exists :: "('t, 's) DB \<Rightarrow> Filter \<Rightarrow> 's \<Rightarrow> bool \<times> 's" where
  "Exists c flt s =
     (case SelectQuery_Scan_id c (calls (Exists_query flt)) s of
        ((id', Some err), s') \<Rightarrow> (False, s')
      | ((id', None), s') \<Rightarrow> (0 < sint id', s'))"

text \<open>
  \<^verbatim>\<open>GetBy(ctx, field string, value any)\<close>. The value is any Go value; the model
  carries the three dynamic types a filter can hold.
\<close>

definition GetBy_query :: "string \<Rightarrow> arg \<Rightarrow> SelectQuery" where
  "GetBy_query field v =
     (let condition = Sprintf_eq field
      in SelectQuery_Where (SelectQuery_Model NewSelect PtrZero) condition v)"

definition GetBy :: "('t, 's) DB \<Rightarrow> string \<Rightarrow> arg \<Rightarrow> 's \<Rightarrow> ('t \<times> error option) \<times> 's" where
  "GetBy c field v s =
     (case SelectQuery_Scan_one c (calls (GetBy_query field v)) s of
        ((result, Some err), s') \<Rightarrow> ((result, Some (Errorf ''getBy error: '' err)), s')
      | ((result, None), s') \<Rightarrow> ((result, None), s'))"

section \<open>A small store for the worked examples\<close>

text \<open>
  A table of 64-bit ids held in a list, for evaluating the operations on a concrete
  store: a row is its id. Inserting an id already present fails; deleting takes the id
  from the query; a scan into one value fails with \<^verbatim>\<open>sql.ErrNoRows\<close> on the empty
  table and leaves the destination at zero; a scan into a slice returns the table,
  sorted by descending id when that is the query's ordering. The store pays no regard
  to predicates, limits and offsets.
\<close>

definition table_insert :: "int64 \<Rightarrow> int64 list \<Rightarrow> error option \<times> int64 list" where
  "table_insert a s =
     (if a \<in> set s then (Some (DriverError ''duplicate key''), s) else (None, s @ [a]))"

definition table_update :: "int64 \<Rightarrow> int64 list \<Rightarrow> error option \<times> int64 list" where
  "table_update a s = (None, s)"

fun table_delete :: "call list \<Rightarrow> int64 list \<Rightarrow> error option \<times> int64 list" where
  "table_delete [ModelCall PtrZero, WhereCall cond (ArgInt64 id')] s = (None, removeAll id' s)"
| "table_delete q s = (Some (DriverError ''syntax error''), s)"

definition table_scan_slice ::
    "call list \<Rightarrow> int64 list \<Rightarrow> (int64 list \<times> error option) \<times> int64 list" where
  "table_scan_slice q s =
     (if filter is_Order q = [OrderCall ''id DESC'']
      then ((rev (sort_key sint s), None), s)
      else ((s, None), s))"

fun table_scan_one :: "call list \<Rightarrow> int64 list \<Rightarrow> (int64 \<times> error option) \<times> int64 list" where
  "table_scan_one q [] = ((0, Some ErrNoRows), [])"
| "table_scan_one q (x # xs) = ((x, None), x # xs)"

definition table_store :: "(int64, int64 list) DB" where
  "table_store =
     \<lparr>InsertQuery_Exec = table_insert, UpdateQuery_Exec = table_update,
      DeleteQuery_Exec = table_delete, SelectQuery_Scan_slice = table_scan_slice,
      SelectQuery_Scan_one = table_scan_one, SelectQuery_Scan_id = table_scan_one\<rparr>"



section \<open>The loops of the compiler\<close>

lemma calls_foldl_Where:
  "calls (foldl (\<lambda>query kv. SelectQuery_Where query (Sprintf_eq (Key kv)) (mk (Value kv))) q kvs)
     = calls q @ map (\<lambda>kv. WhereCall (Key kv @ '' = ?'') (mk (Value kv))) kvs"
  by (induction kvs arbitrary: q) (simp_all add: SelectQuery_Where_def Sprintf_eq_def)

lemma calls_foldl_WhereOr:
  "calls (foldl (\<lambda>query kv. SelectQuery_WhereOr query (Sprintf_eq (Key kv)) (mk (Value kv))) q kvs)
     = calls q @ map (\<lambda>kv. WhereOrCall (Key kv @ '' = ?'') (mk (Value kv))) kvs"
  by (induction kvs arbitrary: q) (simp_all add: SelectQuery_WhereOr_def Sprintf_eq_def)

lemma more_foldl_Where:
  "SelectQuery.more (foldl (\<lambda>query kv. SelectQuery_Where query (c kv) (v kv)) q kvs)
     = SelectQuery.more q"
  by (induction kvs arbitrary: q) (simp_all add: SelectQuery_Where_def)

lemma more_foldl_WhereOr:
  "SelectQuery.more (foldl (\<lambda>query kv. SelectQuery_WhereOr query (c kv) (v kv)) q kvs)
     = SelectQuery.more q"
  by (induction kvs arbitrary: q) (simp_all add: SelectQuery_WhereOr_def)

lemma calls_pagination:
  "calls (if 0 < sint n then SelectQuery_Limit q n else q)
     = calls q @ (if 0 < sint n then [LimitCall n] else [])"
  "calls (if 0 < sint n then SelectQuery_Offset q n else q)
     = calls q @ (if 0 < sint n then [OffsetCall n] else [])"
  by (simp_all add: SelectQuery_Limit_def SelectQuery_Offset_def)

lemma calls_applyFilter:
  "calls (applyFilter q flt) = calls q
      @ (if 0 < sint (Limit flt) then [LimitCall (Limit flt)] else [])
      @ (if 0 < sint (Offset flt) then [OffsetCall (Offset flt)] else [])
      @ map conj_int (AndInt flt) @ map conj_int64 (AndInt64 flt) @ map conj_string (AndString flt)
      @ map disj_int (OrInt flt) @ map disj_int64 (OrInt64 flt) @ map disj_string (OrString flt)
      @ map conj_int (WhereInt flt) @ map conj_int64 (WhereInt64 flt)
      @ map conj_string (WhereString flt)"
  unfolding applyFilter_def Let_def
  by (simp only: calls_foldl_Where calls_foldl_WhereOr calls_pagination append_assoc)

lemma more_applyFilter: "SelectQuery.more (applyFilter q flt) = SelectQuery.more q"
  unfolding applyFilter_def Let_def
  by (simp only: more_foldl_Where more_foldl_WhereOr)
     (simp add: SelectQuery_Limit_def SelectQuery_Offset_def)

lemma appended_eq:
  "appended q flt =
        (if 0 < sint (Limit flt) then [LimitCall (Limit flt)] else [])
      @ (if 0 < sint (Offset flt) then [OffsetCall (Offset flt)] else [])
      @ map conj_int (AndInt flt) @ map conj_int64 (AndInt64 flt) @ map conj_string (AndString flt)
      @ map disj_int (OrInt flt) @ map disj_int64 (OrInt64 flt) @ map disj_string (OrString flt)
      @ map conj_int (WhereInt flt) @ map conj_int64 (WhereInt64 flt)
      @ map conj_string (WhereString flt)"
  by (simp add: appended_def calls_applyFilter)

lemma order_appended: "filter is_Order (appended q flt) = []"
  by (simp add: appended_eq o_def)

lemma calls_List_query:
  "calls (List_query flt) =
     ModelCall PtrNilSlice # OrderCall ''id DESC''
       # appended (SelectQuery_Order (SelectQuery_Model NewSelect PtrNilSlice) ''id DESC'') flt"
  by (simp add: List_query_def appended_def calls_applyFilter
        SelectQuery_Order_def SelectQuery_Model_def NewSelect_def)



section \<open>Properties of the filter compiler\<close>

text \<open>
  C1. For every filter and every handle, the compiler leaves the handle's earlier calls
  in place and adds, in this order: the limit clause (if the limit is positive), the
  offset clause (if the offset is positive), the AND conditions, the OR conditions, the
  WHERE conditions; within each kind the integer list, then the 64-bit integer list,
  then the string list; within each list the conditions in the order of the list.
\<close>

theorem applyFilter_fixed_order:
  "calls (applyFilter q flt) = calls q
      @ (if 0 < sint (Limit flt) then [LimitCall (Limit flt)] else [])
      @ (if 0 < sint (Offset flt) then [OffsetCall (Offset flt)] else [])
      @ map conj_int (AndInt flt) @ map conj_int64 (AndInt64 flt) @ map conj_string (AndString flt)
      @ map disj_int (OrInt flt) @ map disj_int64 (OrInt64 flt) @ map disj_string (OrString flt)
      @ map conj_int (WhereInt flt) @ map conj_int64 (WhereInt64 flt)
      @ map conj_string (WhereString flt)"
proof -
  define q1 where "q1 = (if 0 < sint (Limit flt) then SelectQuery_Limit q (Limit flt) else q)"
  define q2 where "q2 = (if 0 < sint (Offset flt) then SelectQuery_Offset q1 (Offset flt) else q1)"
  have paging: "calls q2 = calls q
      @ (if 0 < sint (Limit flt) then [LimitCall (Limit flt)] else [])
      @ (if 0 < sint (Offset flt) then [OffsetCall (Offset flt)] else [])"
    unfolding q1_def q2_def by (simp only: calls_pagination append_assoc)
  have "calls (applyFilter q flt) = calls q2
      @ map conj_int (AndInt flt) @ map conj_int64 (AndInt64 flt) @ map conj_string (AndString flt)
      @ map disj_int (OrInt flt) @ map disj_int64 (OrInt64 flt) @ map disj_string (OrString flt)
      @ map conj_int (WhereInt flt) @ map conj_int64 (WhereInt64 flt)
      @ map conj_string (WhereString flt)"
    unfolding applyFilter_def Let_def q1_def q2_def
    by (simp only: calls_foldl_Where calls_foldl_WhereOr append_assoc)
  with paging show ?thesis
    by (simp only: append_assoc)
qed

text \<open>
  C2, as the specification has it: the filter with the WHERE string condition
  \<open>(slug, abc)\<close> and the WHERE 64-bit condition \<open>(id, 42)\<close>, everything else
  zero, would compile to the predicate on \<open>slug\<close> followed by the predicate on
  \<open>id\<close>. On a handle without earlier calls the compiler does not produce that
  sequence.
\<close>

theorem slug_before_id_counterexample:
  "calls (applyFilter NewSelect
      (Filter_zero\<lparr>WhereString := [\<lparr>Key = ''slug'', Value = ''abc''\<rparr>],
                  WhereInt64 := [\<lparr>Key = ''id'', Value = 42\<rparr>]\<rparr>))
   \<noteq> [WhereCall ''slug = ?'' (ArgString ''abc''), WhereCall ''id = ?'' (ArgInt64 42)]"
  by (simp add: calls_applyFilter Filter_zero_def NewSelect_def)

text \<open>
  C2, amended. The same filter, which is what \<^verbatim>\<open>WhereSlugOrId("abc", 42)\<close> returns,
  compiles to exactly two conjunctive predicates behind the handle's earlier calls:
  \<open>id = 42\<close> first and \<open>slug = abc\<close> second, the 64-bit list before the string
  list.
\<close>

theorem WhereSlugOrId_id_before_slug:
  "calls (applyFilter q
      (Filter_zero\<lparr>WhereString := [\<lparr>Key = ''slug'', Value = ''abc''\<rparr>],
                  WhereInt64 := [\<lparr>Key = ''id'', Value = 42\<rparr>]\<rparr>))
   = calls q @ [WhereCall ''id = ?'' (ArgInt64 42), WhereCall ''slug = ?'' (ArgString ''abc'')]
   \<and> WhereSlugOrId ''abc'' 42 =
      Filter_zero\<lparr>WhereString := [\<lparr>Key = ''slug'', Value = ''abc''\<rparr>],
                  WhereInt64 := [\<lparr>Key = ''id'', Value = 42\<rparr>]\<rparr>"
  by (simp add: calls_applyFilter Filter_zero_def WhereSlugOrId_def)

text \<open>
  C3. For every filter, the conjunctive predicates the compiler adds are one per
  condition of the AND lists (and of the WHERE lists), each \<open>key = value\<close>, in the
  order of the lists; the disjunctive predicates it adds are one per condition of the OR
  lists, each \<open>key = value\<close>, in the order of the lists; and a filter whose AND and
  WHERE lists are empty adds no conjunctive predicate.
\<close>

theorem applyFilter_predicates:
  "filter is_Where (appended q flt) =
       map conj_int (AndInt flt) @ map conj_int64 (AndInt64 flt) @ map conj_string (AndString flt)
     @ map conj_int (WhereInt flt) @ map conj_int64 (WhereInt64 flt)
     @ map conj_string (WhereString flt)
   \<and> filter is_WhereOr (appended q flt) =
       map disj_int (OrInt flt) @ map disj_int64 (OrInt64 flt) @ map disj_string (OrString flt)
   \<and> (AndInt flt = [] \<and> AndInt64 flt = [] \<and> AndString flt = [] \<and>
      WhereInt flt = [] \<and> WhereInt64 flt = [] \<and> WhereString flt = []
      \<longrightarrow> filter is_Where (appended q flt) = [])"
  by (simp add: appended_eq o_def)

text \<open>
  The two examples of the specification: an AND list \<open>[(a, 1), (b, 2)]\<close>, and a
  filter with nothing but the OR list \<open>[(x, p), (y, q)]\<close>.
\<close>

theorem applyFilter_predicates_witness:
  "filter is_Where (appended NewSelect
       (Filter_zero\<lparr>AndInt := [\<lparr>Key = ''a'', Value = 1\<rparr>, \<lparr>Key = ''b'', Value = 2\<rparr>]\<rparr>))
     = [WhereCall ''a = ?'' (ArgInt 1), WhereCall ''b = ?'' (ArgInt 2)]
   \<and> AndInt (Filter_zero\<lparr>OrString := [\<lparr>Key = ''x'', Value = ''p''\<rparr>, \<lparr>Key = ''y'', Value = ''q''\<rparr>]\<rparr>) = []
   \<and> filter is_WhereOr (appended NewSelect
       (Filter_zero\<lparr>OrString := [\<lparr>Key = ''x'', Value = ''p''\<rparr>, \<lparr>Key = ''y'', Value = ''q''\<rparr>]\<rparr>))
     = [WhereOrCall ''x = ?'' (ArgString ''p''), WhereOrCall ''y = ?'' (ArgString ''q'')]
   \<and> filter is_Where (appended NewSelect
       (Filter_zero\<lparr>OrString := [\<lparr>Key = ''x'', Value = ''p''\<rparr>, \<lparr>Key = ''y'', Value = ''q''\<rparr>]\<rparr>))
     = []"
  using applyFilter_predicates [of NewSelect
          "Filter_zero\<lparr>AndInt := [\<lparr>Key = ''a'', Value = 1\<rparr>, \<lparr>Key = ''b'', Value = 2\<rparr>]\<rparr>"]
        applyFilter_predicates [of NewSelect
          "Filter_zero\<lparr>OrString := [\<lparr>Key = ''x'', Value = ''p''\<rparr>, \<lparr>Key = ''y'', Value = ''q''\<rparr>]\<rparr>"]
  by (simp add: Filter_zero_def)

text \<open>
  C4. For every filter, the compiler adds a limit directive exactly when the filter's
  limit is strictly positive, and then one directive with that value; likewise for the
  offset. A filter with limit 0 and offset 0 adds neither, and a filter with a positive
  limit \<open>L\<close> and nothing else adds the one directive \<open>Limit L\<close> and no predicate.
\<close>

theorem applyFilter_pagination:
  "filter is_Limit (appended q flt) =
       (if 0 < sint (Limit flt) then [LimitCall (Limit flt)] else [])
   \<and> filter is_Offset (appended q flt) =
       (if 0 < sint (Offset flt) then [OffsetCall (Offset flt)] else [])
   \<and> (Limit flt = 0 \<and> Offset flt = 0 \<longrightarrow>
        filter is_Limit (appended q flt) = [] \<and> filter is_Offset (appended q flt) = [])
   \<and> (0 < sint L \<longrightarrow> appended q (Filter_zero\<lparr>Limit := L\<rparr>) = [LimitCall L])"
  by (simp add: appended_eq o_def Filter_zero_def)

text \<open>
  At the zero filter and at the limit 10; a negative limit (here \<open>-1\<close>) adds no
  directive either.
\<close>

theorem applyFilter_pagination_witness:
  "Limit Filter_zero = 0 \<and> Offset Filter_zero = 0
   \<and> filter is_Limit (appended NewSelect Filter_zero) = []
   \<and> filter is_Offset (appended NewSelect Filter_zero) = []
   \<and> 0 < sint (10 :: go_int)
   \<and> appended NewSelect (Filter_zero\<lparr>Limit := 10\<rparr>) = [LimitCall 10]
   \<and> filter is_Limit (appended NewSelect (Filter_zero\<lparr>Limit := - 1\<rparr>)) = []"
  using applyFilter_pagination [of NewSelect Filter_zero 10]
        applyFilter_pagination [of NewSelect "Filter_zero\<lparr>Limit := - 1\<rparr>" 10]
  by (simp add: Filter_zero_def)

text \<open>
  C5. For every filter whose AND and OR lists are empty, the compiler does to a handle
  exactly what it does for the filter that holds the same conditions in its AND lists
  and none in its WHERE lists.
\<close>

theorem applyFilter_where_as_and:
  assumes "AndInt flt = []" "AndInt64 flt = []" "AndString flt = []"
      and "OrInt flt = []" "OrInt64 flt = []" "OrString flt = []"
  shows "applyFilter q flt =
         applyFilter q (flt\<lparr>AndInt := WhereInt flt, AndInt64 := WhereInt64 flt,
                             AndString := WhereString flt,
                             WhereInt := [], WhereInt64 := [], WhereString := []\<rparr>)"
proof (rule SelectQuery.equality)
  show "calls (applyFilter q flt) =
        calls (applyFilter q (flt\<lparr>AndInt := WhereInt flt, AndInt64 := WhereInt64 flt,
                             AndString := WhereString flt,
                             WhereInt := [], WhereInt64 := [], WhereString := []\<rparr>))"
    using assms by (simp add: calls_applyFilter)
next
  show "SelectQuery.more (applyFilter q flt) =
        SelectQuery.more (applyFilter q (flt\<lparr>AndInt := WhereInt flt, AndInt64 := WhereInt64 flt,
                             AndString := WhereString flt,
                             WhereInt := [], WhereInt64 := [], WhereString := []\<rparr>))"
    by (simp only: more_applyFilter)
qed

theorem applyFilter_where_as_and_witness:
  "AndInt (WhereSlugOrId ''abc'' 42) = [] \<and> AndInt64 (WhereSlugOrId ''abc'' 42) = []
   \<and> AndString (WhereSlugOrId ''abc'' 42) = [] \<and> OrInt (WhereSlugOrId ''abc'' 42) = []
   \<and> OrInt64 (WhereSlugOrId ''abc'' 42) = [] \<and> OrString (WhereSlugOrId ''abc'' 42) = []
   \<and> applyFilter NewSelect (WhereSlugOrId ''abc'' 42) =
       applyFilter NewSelect
         (Filter_zero\<lparr>AndInt64 := [\<lparr>Key = ''id'', Value = 42\<rparr>],
                     AndString := [\<lparr>Key = ''slug'', Value = ''abc''\<rparr>]\<rparr>)"
proof -
  have h: "AndInt (WhereSlugOrId ''abc'' 42) = []" "AndInt64 (WhereSlugOrId ''abc'' 42) = []"
    "AndString (WhereSlugOrId ''abc'' 42) = []" "OrInt (WhereSlugOrId ''abc'' 42) = []"
    "OrInt64 (WhereSlugOrId ''abc'' 42) = []" "OrString (WhereSlugOrId ''abc'' 42) = []"
    by (simp_all add: WhereSlugOrId_def Filter_zero_def)
  show ?thesis
    using h applyFilter_where_as_and [OF h, of NewSelect]
    by (simp add: WhereSlugOrId_def Filter_zero_def)
qed

section \<open>Properties of the CRUD operations\<close>

text \<open>
  C6. Each of Add, Create, Update, Delete, List, Get and GetBy runs one query on the
  store: the state it leaves is the state that one call leaves. The error it returns
  is nil exactly when the store's error is nil, and otherwise it is the store's error
  wrapped behind the prefix of the operation (insert, update, delete, list, get,
  getBy).
\<close>

theorem crud_errors_wrap_store_error:
  "fst (Add c a s) = map_option (Errorf ''insert error: '') (fst (InsertQuery_Exec c a s))
   \<and> (fst (Add c a s) = None) = (fst (InsertQuery_Exec c a s) = None)
   \<and> snd (Add c a s) = snd (InsertQuery_Exec c a s)
   \<and> fst (Create c a s) = map_option (Errorf ''insert error: '') (fst (InsertQuery_Exec c a s))
   \<and> (fst (Create c a s) = None) = (fst (InsertQuery_Exec c a s) = None)
   \<and> snd (Create c a s) = snd (InsertQuery_Exec c a s)
   \<and> fst (Update c a s) = map_option (Errorf ''update error: '') (fst (UpdateQuery_Exec c a s))
   \<and> (fst (Update c a s) = None) = (fst (UpdateQuery_Exec c a s) = None)
   \<and> snd (Update c a s) = snd (UpdateQuery_Exec c a s)
   \<and> fst (Delete c i s) =
       map_option (Errorf ''delete error: '') (fst (DeleteQuery_Exec c (Delete_query i) s))
   \<and> (fst (Delete c i s) = None) = (fst (DeleteQuery_Exec c (Delete_query i) s) = None)
   \<and> snd (Delete c i s) = snd (DeleteQuery_Exec c (Delete_query i) s)
   \<and> snd (fst (List c flt s)) =
       map_option (Errorf ''list error: '')
         (snd (fst (SelectQuery_Scan_slice c (calls (List_query flt)) s)))
   \<and> (snd (fst (List c flt s)) = None) =
       (snd (fst (SelectQuery_Scan_slice c (calls (List_query flt)) s)) = None)
   \<and> snd (List c flt s) = snd (SelectQuery_Scan_slice c (calls (List_query flt)) s)
   \<and> snd (fst (Get c flt s)) =
       map_option (Errorf ''get error: '')
         (snd (fst (SelectQuery_Scan_one c (calls (Get_query flt)) s)))
   \<and> (snd (fst (Get c flt s)) = None) =
       (snd (fst (SelectQuery_Scan_one c (calls (Get_query flt)) s)) = None)
   \<and> snd (Get c flt s) = snd (SelectQuery_Scan_one c (calls (Get_query flt)) s)
   \<and> snd (fst (GetBy c field v s)) =
       map_option (Errorf ''getBy error: '')
         (snd (fst (SelectQuery_Scan_one c (calls (GetBy_query field v)) s)))
   \<and> (snd (fst (GetBy c field v s)) = None) =
       (snd (fst (SelectQuery_Scan_one c (calls (GetBy_query field v)) s)) = None)
   \<and> snd (GetBy c field v s) = snd (SelectQuery_Scan_one c (calls (GetBy_query field v)) s)"
proof -
  have ins: "fst (Add c a s) = map_option (Errorf ''insert error: '') (fst (InsertQuery_Exec c a s))"
    "snd (Add c a s) = snd (InsertQuery_Exec c a s)"
    "fst (Create c a s) = map_option (Errorf ''insert error: '') (fst (InsertQuery_Exec c a s))"
    "snd (Create c a s) = snd (InsertQuery_Exec c a s)"
    by (simp_all add: Add_def Create_def split: prod.split option.split)
  have upd: "fst (Update c a s) = map_option (Errorf ''update error: '') (fst (UpdateQuery_Exec c a s))"
    "snd (Update c a s) = snd (UpdateQuery_Exec c a s)"
    by (simp_all add: Update_def split: prod.split option.split)
  have del: "fst (Delete c i s) =
       map_option (Errorf ''delete error: '') (fst (DeleteQuery_Exec c (Delete_query i) s))"
    "snd (Delete c i s) = snd (DeleteQuery_Exec c (Delete_query i) s)"
    by (simp_all add: Delete_def split: prod.split option.split)
  have lst: "snd (fst (List c flt s)) =
       map_option (Errorf ''list error: '')
         (snd (fst (SelectQuery_Scan_slice c (calls (List_query flt)) s)))"
    "snd (List c flt s) = snd (SelectQuery_Scan_slice c (calls (List_query flt)) s)"
    by (simp_all add: List_def split: prod.split option.split)
  have get: "snd (fst (Get c flt s)) =
       map_option (Errorf ''get error: '')
         (snd (fst (SelectQuery_Scan_one c (calls (Get_query flt)) s)))"
    "snd (Get c flt s) = snd (SelectQuery_Scan_one c (calls (Get_query flt)) s)"
    by (simp_all add: Get_def split: prod.split option.split)
  have gby: "snd (fst (GetBy c field v s)) =
       map_option (Errorf ''getBy error: '')
         (snd (fst (SelectQuery_Scan_one c (calls (GetBy_query field v)) s)))"
    "snd (GetBy c field v s) = snd (SelectQuery_Scan_one c (calls (GetBy_query field v)) s)"
    by (simp_all add: GetBy_def split: prod.split option.split)
  show ?thesis
    by (simp only: ins upd del lst get gby map_option_is_None simp_thms)
qed

text \<open>
  On the example store: inserting an id already in the table fails, and Add returns the
  store's error behind its prefix; the message reads through, and unwrapping gives the
  store's error back. Inserting a new id returns nil. Get on the empty table returns
  the wrapped \<^verbatim>\<open>sql.ErrNoRows\<close>.
\<close>

theorem crud_errors_wrap_store_error_witness:
  "Add table_store 7 [7] = (Some (Errorf ''insert error: '' (DriverError ''duplicate key'')), [7])
   \<and> map_option Error (fst (Add table_store 7 [7])) = Some ''insert error: duplicate key''
   \<and> Unwrap (Errorf ''insert error: '' (DriverError ''duplicate key'')) =
       Some (DriverError ''duplicate key'')
   \<and> Create table_store 8 [7] = (None, [7, 8])
   \<and> Update table_store 7 [7] = (None, [7])
   \<and> Delete table_store 7 [7, 8] = (None, [8])
   \<and> List table_store (WhereSlugFilter ''abc'') [7, 8] = (([8, 7], None), [7, 8])
   \<and> Get table_store (WhereEmailFilter ''a@b.c'') [] =
       ((0, Some (Errorf ''get error: '' ErrNoRows)), [])
   \<and> GetBy table_store ''id'' (ArgInt64 7) [7] = ((7, None), [7])"
proof -
  note t = crud_errors_wrap_store_error [of table_store 7 "[7]" 7 "WhereSlugFilter ''abc''" "''id''" "ArgInt64 7"]
  have add: "Add table_store 7 [7] =
      (Some (Errorf ''insert error: '' (DriverError ''duplicate key'')), [7])"
    using t by (simp add: table_store_def table_insert_def prod_eq_iff)
  have other: "Create table_store 8 [7] = (None, [7, 8])"
    "Update table_store 7 [7] = (None, [7])"
    "Delete table_store 7 [7, 8] = (None, [8])"
    "Get table_store (WhereEmailFilter ''a@b.c'') [] = ((0, Some (Errorf ''get error: '' ErrNoRows)), [])"
    "GetBy table_store ''id'' (ArgInt64 7) [7] = ((7, None), [7])"
    by (simp_all add: Create_def Update_def Delete_def Get_def GetBy_def Delete_query_def
          table_store_def table_insert_def table_update_def)
  have lst: "List table_store (WhereSlugFilter ''abc'') [7, 8] = (([8, 7], None), [7, 8])"
    by (simp add: List_def table_store_def table_scan_slice_def calls_List_query order_appended)
  from add other lst show ?thesis by simp
qed

text \<open>
  C7. For every filter, whenever the store's scan fails, with \<^verbatim>\<open>sql.ErrNoRows\<close> or
  with any other error, and whatever it left in the destination, Exists returns false
  and no error: its result carries nothing of the error.
\<close>

theorem Exists_false_on_failure:
  assumes "SelectQuery_Scan_id c (calls (Exists_query flt)) s = ((i, Some err), s')"
  shows "Exists c flt s = (False, s')"
  using assms by (simp add: Exists_def)

text \<open>
  On the empty table the scan finds no row; on a store whose connection is down it fails
  otherwise, having put 7 in the destination. Exists answers false both times.
\<close>

theorem Exists_false_on_failure_witness:
  "SelectQuery_Scan_id table_store (calls (Exists_query (WhereIdFilter 7))) []
     = ((0, Some ErrNoRows), [])
   \<and> Exists table_store (WhereIdFilter 7) [] = (False, [])
   \<and> Exists (table_store\<lparr>SelectQuery_Scan_id :=
               \<lambda>q s. ((7, Some (DriverError ''connection refused'')), s)\<rparr>)
        (WhereIdFilter 7) [7] = (False, [7])"
proof -
  have h: "SelectQuery_Scan_id table_store (calls (Exists_query (WhereIdFilter 7))) []
             = ((0, Some ErrNoRows), [])"
    by (simp add: table_store_def)
  have k: "SelectQuery_Scan_id
             (table_store\<lparr>SelectQuery_Scan_id :=
                \<lambda>q s. ((7, Some (DriverError ''connection refused'')), s)\<rparr>)
             (calls (Exists_query (WhereIdFilter 7))) [7]
           = ((7, Some (DriverError ''connection refused'')), [7])"
    by simp
  show ?thesis
    using h Exists_false_on_failure [OF h] Exists_false_on_failure [OF k] by simp
qed

text \<open>
  C9. Exists returns true exactly when the scan returns no error and the value it put
  in the 64-bit destination is strictly positive; so a scan that succeeds with an id of
  zero or below gives false.
\<close>

theorem Exists_true_iff:
  "fst (Exists c flt s) =
     (snd (fst (SelectQuery_Scan_id c (calls (Exists_query flt)) s)) = None
      \<and> 0 < sint (fst (fst (SelectQuery_Scan_id c (calls (Exists_query flt)) s))))"
  by (simp add: Exists_def split: prod.split option.split)

text \<open>A positive id, the id zero, a negative id, and a failed scan.\<close>

theorem Exists_true_iff_witness:
  "fst (Exists table_store (WhereIdFilter 7) [7]) = True
   \<and> fst (Exists table_store (WhereIdFilter 0) [0]) = False
   \<and> fst (Exists table_store (WhereIdFilter (- 5)) [- 5]) = False
   \<and> fst (Exists table_store (WhereIdFilter 7) []) = False"
  using Exists_true_iff [of table_store "WhereIdFilter 7" "[7]"]
        Exists_true_iff [of table_store "WhereIdFilter 0" "[0]"]
        Exists_true_iff [of table_store "WhereIdFilter (- 5)" "[- 5]"]
        Exists_true_iff [of table_store "WhereIdFilter 7" "[]"]
  by (simp add: table_store_def)




end
